theory Spec2Isabelle
  imports Complex_Main
begin

section \<open>Depreciation schedule engine of DepreciationCalculator.jsx\<close>

text \<open>
  The embedding follows the \<open>scheduleData\<close> closure of
  \<open>src/components/DepreciationCalculator.jsx\<close> (lines 68-150) and the constant
  tables it reads (lines 4-29, 58-59).

  Numbers: a JavaScript Number is modelled as a \<^typ>\<open>real\<close>, so every sum, product and
  quotient below is exact; IEEE-754 rounding, NaN and the infinities are outside the
  model. The placed-in-service year is \<open>new Date(purchaseDate).getFullYear()\<close>, an
  integer or NaN; it is an \<^typ>\<open>int option\<close> with \<open>None\<close> for NaN.
\<close>

subsection \<open>Constant tables\<close>

datatype category = land | cat5year | cat7year | cat15year | residential | commercial

text \<open>An entry of \<open>ASSET_CATEGORIES\<close>; the name, description and colour fields are
  display data that the engine never reads.\<close>

record asset_category =
  cat_id :: category
  life :: real

definition ASSET_CATEGORIES :: "asset_category list" where
  "ASSET_CATEGORIES =
     [\<lparr>cat_id = land, life = 0\<rparr>,
      \<lparr>cat_id = cat5year, life = 5\<rparr>,
      \<lparr>cat_id = cat7year, life = 7\<rparr>,
      \<lparr>cat_id = cat15year, life = 15\<rparr>,
      \<lparr>cat_id = residential, life = 27.5\<rparr>,
      \<lparr>cat_id = commercial, life = 39\<rparr>]"

text \<open>\<open>MACRS_RATES\<close>, an object keyed by recovery life; a life that is no key reads as
  \<open>undefined\<close>, here \<open>None\<close>.\<close>

definition MACRS_RATES :: "real \<Rightarrow> real list option" where
  "MACRS_RATES l =
     (if l = 5 then Some [0.2, 0.32, 0.192, 0.1152, 0.1152, 0.0576]
      else if l = 7 then
        Some [0.1429, 0.2449, 0.1749, 0.1249, 0.0893, 0.0892, 0.0893, 0.0446]
      else if l = 15 then
        Some [0.05, 0.095, 0.0855, 0.077, 0.0693, 0.0623, 0.059, 0.059, 0.0591, 0.059,
              0.0591, 0.059, 0.0591, 0.059, 0.0591, 0.0295]
      else if l = 27.5 then
        Some (map (\<lambda>i. if i = 0 then 0.03636 else if i = 27 then 0.01515 else 0.03636)
                [0..<28])
      else if l = 39 then
        Some (map (\<lambda>i. if i = 0 then 0.02461 else if i = 39 then 0.00107 else 0.02564)
                [0..<40])
      else None)"

definition BONUS_RATES :: "int \<Rightarrow> real option" where
  "BONUS_RATES y =
     (if y = 2022 then Some 1.00
      else if y = 2023 then Some 0.80
      else if y = 2024 then Some 0.60
      else if y = 2025 then Some 0.40
      else if y = 2026 then Some 0.20
      else if y = 2027 then Some 0.00
      else None)"

text \<open>The JavaScript \<open>x || 0\<close> on a number that may be \<open>undefined\<close>: \<open>undefined\<close> and
  \<open>0\<close> both give \<open>0\<close>.\<close>

definition or0 :: "real option \<Rightarrow> real" where
  "or0 x = (case x of None \<Rightarrow> 0 | Some v \<Rightarrow> (if v = 0 then 0 else v))"

subsection \<open>Inputs and per-category state\<close>

text \<open>The component state the closure depends on (line 150). \<open>allocations\<close> always holds
  the six category ids as keys: the initial state has them all and \<open>updateAllocation\<close>
  only writes ids of \<open>ASSET_CATEGORIES\<close>.\<close>

record inputs =
  allocations :: "category \<Rightarrow> real"
  totalCost :: real
  purchaseYear :: "int option"
  useBonus :: bool
  useSection179 :: bool
  section179Amount :: real
  depreciationMethod :: string

text \<open>\<open>const bonusRate = BONUS_RATES[purchaseYear] || 0\<close>.\<close>

definition bonusRate :: "inputs \<Rightarrow> real" where
  "bonusRate inp =
     or0 (case purchaseYear inp of None \<Rightarrow> None | Some y \<Rightarrow> BONUS_RATES y)"

text \<open>A value of \<open>categorySchedules\<close>. The fields \<open>section179\<close> and
  \<open>bonusDepreciation\<close> do not exist until they are assigned (\<open>None\<close>).\<close>

record cat_schedule =
  basis :: real
  yearlyDepreciation :: "real list"
  cumulative :: real
  section179 :: "real option"
  bonusDepreciation :: "real option"

text \<open>\<open>categorySchedules\<close> is an object with one entry per category id. It is a function
  on \<^typ>\<open>category\<close>; \<open>blankSchedules\<close> stands for the empty object \<open>{}\<close> and is
  overwritten at every id by the first loop (lemma \<open>initSchedules_apply\<close>).\<close>

type_synonym schedules = "category \<Rightarrow> cat_schedule"

definition blankSchedules :: schedules where
  "blankSchedules =
     (\<lambda>_. \<lparr>basis = 0, yearlyDepreciation = [], cumulative = 0, section179 = None,
            bonusDepreciation = None\<rparr>)"

subsection \<open>Basis allocation (lines 73-79)\<close>

definition initCategory :: "inputs \<Rightarrow> asset_category \<Rightarrow> schedules \<Rightarrow> schedules" where
  "initCategory inp cat cs =
     cs(cat_id cat :=
          \<lparr>basis = (allocations inp (cat_id cat) / 100) * totalCost inp,
           yearlyDepreciation = [], cumulative = 0, section179 = None,
           bonusDepreciation = None\<rparr>)"

definition initSchedules :: "inputs \<Rightarrow> schedules" where
  "initSchedules inp = fold (initCategory inp) ASSET_CATEGORIES blankSchedules"

subsection \<open>Section 179 (lines 82-93)\<close>

definition eligible179 :: "category list" where
  "eligible179 = [cat5year, cat7year, cat15year]"

text \<open>One pass of the \<open>eligible179.forEach\<close> body on the pair of the running
  \<open>remaining179\<close> and \<open>categorySchedules\<close>.\<close>

definition step179 :: "category \<Rightarrow> real \<times> schedules \<Rightarrow> real \<times> schedules" where
  "step179 catId st =
     (case st of (remaining179, cs) \<Rightarrow>
        if remaining179 > 0 then
          let catBasis = basis (cs catId);
              deduction = min remaining179 catBasis;
              cs1 = cs(catId := (cs catId)\<lparr>section179 := Some deduction\<rparr>);
              cs2 = cs1(catId := (cs1 catId)\<lparr>basis := basis (cs1 catId) - deduction\<rparr>)
          in (remaining179 - deduction, cs2)
        else (remaining179, cs))"

definition applySection179 :: "inputs \<Rightarrow> schedules \<Rightarrow> real \<times> schedules" where
  "applySection179 inp cs =
     fold step179 eligible179
       (if useSection179 inp then section179Amount inp else 0, cs)"

subsection \<open>Bonus depreciation (lines 95-103)\<close>

definition eligibleBonus :: "category list" where
  "eligibleBonus = [cat5year, cat7year, cat15year]"

definition stepBonus :: "inputs \<Rightarrow> category \<Rightarrow> schedules \<Rightarrow> schedules" where
  "stepBonus inp catId cs =
     (if useBonus inp \<and> bonusRate inp > 0 then
        let bonus = basis (cs catId) * bonusRate inp;
            cs1 = cs(catId := (cs catId)\<lparr>bonusDepreciation := Some bonus\<rparr>);
            cs2 = cs1(catId := (cs1 catId)\<lparr>basis := basis (cs1 catId) - bonus\<rparr>)
        in cs2
      else cs)"

definition applyBonus :: "inputs \<Rightarrow> schedules \<Rightarrow> schedules" where
  "applyBonus inp cs = fold (stepBonus inp) eligibleBonus cs"

text \<open>The state of \<open>categorySchedules\<close> when the yearly loop starts.\<close>

definition after179 :: "inputs \<Rightarrow> schedules" where
  "after179 inp = snd (applySection179 inp (initSchedules inp))"

definition afterBonus :: "inputs \<Rightarrow> schedules" where
  "afterBonus inp = applyBonus inp (after179 inp)"

subsection \<open>Yearly depreciation (lines 106-147)\<close>

record year_data =
  year :: "int option"
  depreciation :: "category \<rightharpoonup> real"
  totalDepreciation :: real

text \<open>Lines 120-133: the amount before the first-year additions.\<close>

definition periodic :: "string \<Rightarrow> asset_category \<Rightarrow> cat_schedule \<Rightarrow> nat \<Rightarrow> real" where
  "periodic method cat catData yearIdx =
     (if method = ''macrs'' then
        (case MACRS_RATES (life cat) of
           Some rates \<Rightarrow>
             if yearIdx < length rates then basis catData * rates ! yearIdx else 0
         | None \<Rightarrow> 0)
      else
        (if real yearIdx < life cat then basis catData / life cat else 0))"

text \<open>Lines 120-138: the amount pushed and reported for a category with \<open>life \<noteq> 0\<close>.\<close>

definition yearDepreciation :: "inputs \<Rightarrow> asset_category \<Rightarrow> cat_schedule \<Rightarrow> nat \<Rightarrow> real" where
  "yearDepreciation inp cat catData yearIdx =
     (let d = periodic (depreciationMethod inp) cat catData yearIdx
      in if yearIdx = 0
         then d + (or0 (section179 catData) + or0 (bonusDepreciation catData))
         else d)"

text \<open>The body of the inner \<open>ASSET_CATEGORIES.forEach\<close> (lines 113-144) on the pair of
  \<open>yearData\<close> and \<open>categorySchedules\<close>.\<close>

definition categoryStep ::
  "inputs \<Rightarrow> nat \<Rightarrow> asset_category \<Rightarrow> year_data \<times> schedules \<Rightarrow> year_data \<times> schedules" where
  "categoryStep inp yearIdx cat st =
     (case st of (yearData, cs) \<Rightarrow>
        if life cat = 0 then
          (yearData\<lparr>depreciation := (depreciation yearData)(cat_id cat \<mapsto> 0)\<rparr>, cs)
        else
          let catData = cs (cat_id cat);
              d = yearDepreciation inp cat catData yearIdx;
              catData' = catData\<lparr>yearlyDepreciation := yearlyDepreciation catData @ [d],
                                 cumulative := cumulative catData + d\<rparr>;
              yearData' = yearData\<lparr>depreciation := (depreciation yearData)(cat_id cat \<mapsto> d),
                                   totalDepreciation := totalDepreciation yearData + d\<rparr>
          in (yearData', cs(cat_id cat := catData')))"

text \<open>The body of the \<open>for\<close> loop over the years (lines 106-147).\<close>

definition yearStep ::
  "inputs \<Rightarrow> nat \<Rightarrow> year_data list \<times> schedules \<Rightarrow> year_data list \<times> schedules" where
  "yearStep inp yearIdx st =
     (case st of (schedule, cs) \<Rightarrow>
        let yearData0 = \<lparr>year = map_option (\<lambda>y. y + int yearIdx) (purchaseYear inp),
                         depreciation = Map.empty, totalDepreciation = 0\<rparr>;
            (yearData, cs') = fold (categoryStep inp yearIdx) ASSET_CATEGORIES (yearData0, cs)
        in (schedule @ [yearData], cs'))"

definition years :: nat where
  "years = 40"

text \<open>The whole closure: it returns \<open>{ schedule, categorySchedules }\<close>.\<close>

definition scheduleData :: "inputs \<Rightarrow> year_data list \<times> schedules" where
  "scheduleData inp = fold (yearStep inp) [0..<years] ([], afterBonus inp)"

definition schedule :: "inputs \<Rightarrow> year_data list" where
  "schedule inp = fst (scheduleData inp)"

definition categorySchedules :: "inputs \<Rightarrow> schedules" where
  "categorySchedules inp = snd (scheduleData inp)"

subsection \<open>Readings of the result\<close>

text \<open>The initially allocated basis of a category, before any reduction.\<close>

definition initialBasis :: "inputs \<Rightarrow> category \<Rightarrow> real" where
  "initialBasis inp c = basis (initSchedules inp c)"

text \<open>The recorded amounts as the code reads them back (\<open>catData.section179 || 0\<close> and
  \<open>catData.bonusDepreciation || 0\<close>, lines 137 and 686-687), from the returned
  \<open>categorySchedules\<close>.\<close>

definition recorded179 :: "inputs \<Rightarrow> category \<Rightarrow> real" where
  "recorded179 inp c = or0 (section179 (categorySchedules inp c))"

definition recordedBonus :: "inputs \<Rightarrow> category \<Rightarrow> real" where
  "recordedBonus inp c = or0 (bonusDepreciation (categorySchedules inp c))"

text \<open>The initial component state (the \<open>useState\<close> defaults of lines 41-55, with
  \<open>purchaseDate = '2024-01-01'\<close> read as the year 2024), and variations of it used as
  concrete inputs below.\<close>

definition defaultInputs :: inputs where
  "defaultInputs =
     \<lparr>allocations = (\<lambda>c. case c of land \<Rightarrow> 15 | cat5year \<Rightarrow> 8 | cat7year \<Rightarrow> 5
                          | cat15year \<Rightarrow> 12 | residential \<Rightarrow> 0 | commercial \<Rightarrow> 60),
      totalCost = 1000000,
      purchaseYear = Some 2024,
      useBonus = True,
      useSection179 = False,
      section179Amount = 0,
      depreciationMethod = ''macrs''\<rparr>"

subsection \<open>Closed form of the yearly loop\<close>

text \<open>The entry of \<open>ASSET_CATEGORIES\<close> with a given id.\<close>

definition categoryOf :: "category \<Rightarrow> asset_category" where
  "categoryOf c =
     \<lparr>cat_id = c,
      life = (case c of land \<Rightarrow> 0 | cat5year \<Rightarrow> 5 | cat7year \<Rightarrow> 7 | cat15year \<Rightarrow> 15
              | residential \<Rightarrow> 27.5 | commercial \<Rightarrow> 39)\<rparr>"

text \<open>The amount that the inner loop reports for category \<open>c\<close> in year \<open>yearIdx\<close>, and the
  row it builds, as functions of the per-category state at the start of the year.\<close>

definition amountAt :: "inputs \<Rightarrow> schedules \<Rightarrow> nat \<Rightarrow> category \<Rightarrow> real" where
  "amountAt inp cs yearIdx c =
     (if life (categoryOf c) = 0 then 0
      else yearDepreciation inp (categoryOf c) (cs c) yearIdx)"

definition rowAt :: "inputs \<Rightarrow> schedules \<Rightarrow> nat \<Rightarrow> year_data" where
  "rowAt inp cs yearIdx =
     \<lparr>year = map_option (\<lambda>y. y + int yearIdx) (purchaseYear inp),
      depreciation = (\<lambda>c. Some (amountAt inp cs yearIdx c)),
      totalDepreciation = (\<Sum>c\<leftarrow>map cat_id ASSET_CATEGORIES. amountAt inp cs yearIdx c)\<rparr>"

text \<open>What one year does to \<open>categorySchedules\<close>: it pushes the amount and adds it to the
  cumulative figure, for every category but land.\<close>

definition pushAmounts :: "inputs \<Rightarrow> schedules \<Rightarrow> nat \<Rightarrow> schedules \<Rightarrow> schedules" where
  "pushAmounts inp cs0 yearIdx cs =
     (\<lambda>c. if c = land then cs c
          else (cs c)\<lparr>yearlyDepreciation :=
                        yearlyDepreciation (cs c) @ [amountAt inp cs0 yearIdx c],
                      cumulative := cumulative (cs c) + amountAt inp cs0 yearIdx c\<rparr>)"

text \<open>Two states agree on the fields that the yearly loop only reads.\<close>

definition static_eq :: "schedules \<Rightarrow> schedules \<Rightarrow> bool" where
  "static_eq cs cs' =
     (\<forall>c. basis (cs c) = basis (cs' c) \<and> section179 (cs c) = section179 (cs' c)
          \<and> bonusDepreciation (cs c) = bonusDepreciation (cs' c))"

subsection \<open>Section 179 as the specification words it\<close>

text \<open>Following the specification's words, not the code: for each eligible category in
  order, the deduction is \<open>min(remaining, category's current basis)\<close>, and it is subtracted
  from the running remaining amount. The argument list holds the bases in iteration
  order; the result holds the deductions.\<close>

fun spec179 :: "real \<Rightarrow> real list \<Rightarrow> real list" where
  "spec179 remaining [] = []"
| "spec179 remaining (b # bs) =
     (let deduction = min remaining b in deduction # spec179 (remaining - deduction) bs)"

text \<open>The default inputs with Section 179 elected: a negative requested amount, and the
  requested amount 100000 of the specification's scenario.\<close>

definition negative179Inputs :: inputs where
  "negative179Inputs = defaultInputs\<lparr>useSection179 := True, section179Amount := -100\<rparr>"

definition section179Inputs :: inputs where
  "section179Inputs = defaultInputs\<lparr>useSection179 := True, section179Amount := 100000\<rparr>"

subsection \<open>Closed form of the Section 179 loop\<close>

text \<open>The initial value of \<open>remaining179\<close> (line 82).\<close>

definition remaining0 :: "inputs \<Rightarrow> real" where
  "remaining0 inp = (if useSection179 inp then section179Amount inp else 0)"

text \<open>What one pass of the loop body deducts, given the running remaining amount and the
  category's basis (lines 86-88).\<close>

definition taken179 :: "real \<Rightarrow> real \<Rightarrow> real" where
  "taken179 r b = (if r > 0 then min r b else 0)"

text \<open>The value of \<open>remaining179\<close> when the loop reaches category \<open>c\<close>: the passes for the
  categories before \<open>c\<close> have run.\<close>

definition remainingAt :: "inputs \<Rightarrow> category \<Rightarrow> real" where
  "remainingAt inp c =
     fst (fold step179 (takeWhile (\<lambda>d. d \<noteq> c) eligible179)
            (remaining0 inp, initSchedules inp))"

subsection \<open>Straight-line depreciation as the specification words it\<close>

text \<open>Following the specification's words, not the code: a category with life \<open>L\<close> and
  remaining basis \<open>B\<close> gets \<open>B / L\<close> in each of the years \<open>0..L-1\<close> and \<open>0\<close> thereafter.\<close>

definition specStraightLine :: "real \<Rightarrow> real \<Rightarrow> nat \<Rightarrow> real" where
  "specStraightLine B L yearIdx = (if real yearIdx \<le> L - 1 then B / L else 0)"

text \<open>A residential property under the straight-line method: the default inputs with the
  60 percent of the building moved to the residential category and the method value that
  the form's select box sets (line 378).\<close>

definition residentialInputs :: inputs where
  "residentialInputs =
     defaultInputs
       \<lparr>allocations := (\<lambda>c. case c of land \<Rightarrow> 15 | cat5year \<Rightarrow> 8 | cat7year \<Rightarrow> 5
                            | cat15year \<Rightarrow> 12 | residential \<Rightarrow> 60 | commercial \<Rightarrow> 0),
        depreciationMethod := ''straight''\<rparr>"

text \<open>The default inputs with a negative total cost, and with a total cost of zero while
  both elections are made.\<close>

definition negativeCostInputs :: inputs where
  "negativeCostInputs = defaultInputs\<lparr>totalCost := -1000\<rparr>"

definition zeroCostInputs :: inputs where
  "zeroCostInputs =
     defaultInputs\<lparr>totalCost := 0, useSection179 := True, section179Amount := 100000\<rparr>"

section \<open>Properties\<close>

subsection \<open>Basis allocation\<close>

lemma initSchedules_apply:
  "initSchedules inp c =
     \<lparr>basis = (allocations inp c / 100) * totalCost inp,
      yearlyDepreciation = [], cumulative = 0, section179 = None,
      bonusDepreciation = None\<rparr>"
  by (cases c) (simp_all add: initSchedules_def ASSET_CATEGORIES_def initCategory_def)

lemma cat_ids:
  "map cat_id ASSET_CATEGORIES =
     [land, cat5year, cat7year, cat15year, residential, commercial]"
  by (simp add: ASSET_CATEGORIES_def)

text \<open>Every category id is an entry of \<open>ASSET_CATEGORIES\<close>, so the first loop writes
  every key that the later steps read.\<close>

lemma cat_ids_exhaustive: "set (map cat_id ASSET_CATEGORIES) = UNIV"
proof -
  have "c \<in> set (map cat_id ASSET_CATEGORIES)" for c
    by (cases c) (simp_all add: cat_ids)
  then show ?thesis by blast
qed

lemma initialBasis_eq: "initialBasis inp c = (allocations inp c / 100) * totalCost inp"
  by (simp add: initialBasis_def initSchedules_apply)

text \<open>
  Claim C7 (allocation conservation). For every input, the initially allocated bases of
  the six categories add up to \<open>totalCost\<close> times the sum of all allocation percentages
  divided by 100. Nothing is assumed about the percentages: they need not add up to 100
  and are neither clamped nor rejected.
\<close>

theorem allocation_conservation:
  "(\<Sum>c\<leftarrow>map cat_id ASSET_CATEGORIES. initialBasis inp c) =
     totalCost inp * (\<Sum>c\<leftarrow>map cat_id ASSET_CATEGORIES. allocations inp c) / 100"
  by (simp add: initialBasis_eq cat_ids algebra_simps)

subsection \<open>The yearly loop in closed form\<close>

text \<open>One pass over \<open>ASSET_CATEGORIES\<close> builds the row \<open>rowAt\<close> and pushes the amounts; the
  fields \<open>basis\<close>, \<open>section179\<close> and \<open>bonusDepreciation\<close> are only read.\<close>

lemma fold_categoryStep_fst:
  "fst (fold (categoryStep inp y) ASSET_CATEGORIES
      (\<lparr>year = yr, depreciation = Map.empty, totalDepreciation = 0\<rparr>, cs)) =
   \<lparr>year = yr, depreciation = (\<lambda>c. Some (amountAt inp cs y c)),
    totalDepreciation = (\<Sum>c\<leftarrow>map cat_id ASSET_CATEGORIES. amountAt inp cs y c)\<rparr>"
proof -
  have "depreciation (fst (fold (categoryStep inp y) ASSET_CATEGORIES
      (\<lparr>year = yr, depreciation = Map.empty, totalDepreciation = 0\<rparr>, cs))) c = Some (amountAt inp cs y c)" for c
    by (cases c) (simp_all add: ASSET_CATEGORIES_def categoryStep_def Let_def amountAt_def categoryOf_def)
  moreover have "totalDepreciation (fst (fold (categoryStep inp y) ASSET_CATEGORIES
      (\<lparr>year = yr, depreciation = Map.empty, totalDepreciation = 0\<rparr>, cs))) = (\<Sum>c\<leftarrow>map cat_id ASSET_CATEGORIES. amountAt inp cs y c)"
    by (simp add: ASSET_CATEGORIES_def categoryStep_def Let_def amountAt_def categoryOf_def)
  moreover have "year (fst (fold (categoryStep inp y) ASSET_CATEGORIES
      (\<lparr>year = yr, depreciation = Map.empty, totalDepreciation = 0\<rparr>, cs))) = yr"
    by (simp add: ASSET_CATEGORIES_def categoryStep_def Let_def)
  ultimately show ?thesis
    by (intro year_data.equality ext) simp_all
qed

lemma fold_categoryStep_snd:
  "snd (fold (categoryStep inp y) ASSET_CATEGORIES (yd, cs)) = pushAmounts inp cs y cs"
proof
  fix c
  show "snd (fold (categoryStep inp y) ASSET_CATEGORIES (yd, cs)) c = pushAmounts inp cs y cs c"
    by (cases c) (simp_all add: ASSET_CATEGORIES_def categoryStep_def Let_def amountAt_def categoryOf_def pushAmounts_def)
qed

lemma yearStep_eq:
  "yearStep inp y (sched, cs) = (sched @ [rowAt inp cs y], pushAmounts inp cs y cs)"
proof -
  obtain yd cs' where f: "fold (categoryStep inp y) ASSET_CATEGORIES
      (\<lparr>year = map_option (\<lambda>p. p + int y) (purchaseYear inp), depreciation = Map.empty, totalDepreciation = 0\<rparr>, cs) = (yd, cs')"
    by (cases "fold (categoryStep inp y) ASSET_CATEGORIES
      (\<lparr>year = map_option (\<lambda>p. p + int y) (purchaseYear inp), depreciation = Map.empty, totalDepreciation = 0\<rparr>, cs)") 
  have "yd = rowAt inp cs y"
    using fold_categoryStep_fst [of inp y "map_option (\<lambda>p. p + int y) (purchaseYear inp)" cs] f
    by (simp add: rowAt_def)
  moreover have "cs' = pushAmounts inp cs y cs"
    using arg_cong [OF f, of snd] by (simp add: fold_categoryStep_snd)
  ultimately show ?thesis
    by (simp add: yearStep_def Let_def f)
qed


lemma yearDepreciation_static:
  "basis a = basis b \<Longrightarrow> section179 a = section179 b \<Longrightarrow>
   bonusDepreciation a = bonusDepreciation b \<Longrightarrow>
   yearDepreciation inp cat a y = yearDepreciation inp cat b y"
  by (simp add: yearDepreciation_def periodic_def split: option.split)

lemma amountAt_static: "static_eq cs cs' \<Longrightarrow> amountAt inp cs y c = amountAt inp cs' y c"
  using yearDepreciation_static [of "cs c" "cs' c" inp "categoryOf c" y]
  by (simp add: static_eq_def amountAt_def)

lemma rowAt_static: "static_eq cs cs' \<Longrightarrow> rowAt inp cs y = rowAt inp cs' y"
  by (simp add: rowAt_def amountAt_static [of cs cs'])

lemma pushAmounts_static: "static_eq (pushAmounts inp cs0 y cs) cs"
  by (simp add: static_eq_def pushAmounts_def)

lemma static_eq_trans: "static_eq a b \<Longrightarrow> static_eq b c \<Longrightarrow> static_eq a c"
  by (simp add: static_eq_def)

lemma fold_yearStep_fst:
  "static_eq cs cs0 \<Longrightarrow>
   fst (fold (yearStep inp) ys (sched, cs)) = sched @ map (rowAt inp cs0) ys"
proof (induction ys arbitrary: sched cs)
  case Nil
  then show ?case by simp
next
  case (Cons y ys)
  have "static_eq (pushAmounts inp cs y cs) cs0"
    using Cons.prems pushAmounts_static static_eq_trans by blast
  then show ?case
    using Cons.IH [of "pushAmounts inp cs y cs" "sched @ [rowAt inp cs y]"] Cons.prems
    by (simp add: yearStep_eq rowAt_static [of cs cs0])
qed

lemma fold_yearStep_static:
  "static_eq (snd (fold (yearStep inp) ys (sched, cs))) cs"
proof (induction ys arbitrary: sched cs)
  case Nil
  then show ?case by (simp add: static_eq_def)
next
  case (Cons y ys)
  show ?case
    using Cons.IH [of "sched @ [rowAt inp cs y]" "pushAmounts inp cs y cs"]
      pushAmounts_static [of inp cs y cs] static_eq_trans
    by (simp add: yearStep_eq)
qed

lemma fold_yearStep_dynamic:
  "static_eq cs cs0 \<Longrightarrow>
   yearlyDepreciation (snd (fold (yearStep inp) ys (sched, cs)) c) =
     yearlyDepreciation (cs c) @ (if c = land then [] else map (\<lambda>y. amountAt inp cs0 y c) ys) \<and>
   cumulative (snd (fold (yearStep inp) ys (sched, cs)) c) =
     fold (\<lambda>y acc. acc + amountAt inp cs0 y c) (if c = land then [] else ys) (cumulative (cs c))"
proof (induction ys arbitrary: sched cs)
  case Nil
  then show ?case by simp
next
  case (Cons y ys)
  have s: "static_eq (pushAmounts inp cs y cs) cs0"
    using Cons.prems pushAmounts_static static_eq_trans by blast
  show ?case
    using Cons.IH [OF s, of "sched @ [rowAt inp cs y]"] Cons.prems
    by (simp add: yearStep_eq pushAmounts_def amountAt_static [of cs cs0])
qed

lemma schedule_eq: "schedule inp = map (rowAt inp (afterBonus inp)) [0..<years]"
  using fold_yearStep_fst [of "afterBonus inp" "afterBonus inp" inp "[0..<years]" "[]"]
  by (simp add: schedule_def scheduleData_def static_eq_def)

lemma categorySchedules_static: "static_eq (categorySchedules inp) (afterBonus inp)"
  by (simp add: categorySchedules_def scheduleData_def fold_yearStep_static)

lemma categorySchedules_basis: "basis (categorySchedules inp c) = basis (afterBonus inp c)"
  using categorySchedules_static [of inp] by (simp add: static_eq_def)

lemma categorySchedules_section179:
  "section179 (categorySchedules inp c) = section179 (afterBonus inp c)"
  using categorySchedules_static [of inp] by (simp add: static_eq_def)

lemma categorySchedules_bonusDepreciation:
  "bonusDepreciation (categorySchedules inp c) = bonusDepreciation (afterBonus inp c)"
  using categorySchedules_static [of inp] by (simp add: static_eq_def)

lemma length_schedule: "length (schedule inp) = years"
  by (simp add: schedule_eq)

lemma schedule_nth: "i < years \<Longrightarrow> schedule inp ! i = rowAt inp (afterBonus inp) i"
  by (simp add: schedule_eq)

lemma amountAt_final:
  "amountAt inp (afterBonus inp) i c = amountAt inp (categorySchedules inp) i c"
  using amountAt_static [OF categorySchedules_static [of inp], of inp i c] by simp

subsection \<open>Section 179 and bonus steps\<close>

lemma afterBonus_apply:
  "afterBonus inp c =
     (if useBonus inp \<and> bonusRate inp > 0 \<and> c \<in> set eligibleBonus
      then (after179 inp c)\<lparr>bonusDepreciation := Some (basis (after179 inp c) * bonusRate inp),
                              basis := basis (after179 inp c) - basis (after179 inp c) * bonusRate inp\<rparr>
      else after179 inp c)"
  by (cases c) (simp_all add: afterBonus_def applyBonus_def eligibleBonus_def stepBonus_def Let_def)

lemma after179_not_eligible:
  "c \<notin> set eligible179 \<Longrightarrow> after179 inp c = initSchedules inp c"
  by (cases c) (simp_all add: after179_def applySection179_def eligible179_def step179_def Let_def)

lemma recorded179_after179: "recorded179 inp c = or0 (section179 (after179 inp c))"
  by (simp add: recorded179_def categorySchedules_section179 afterBonus_apply)

lemma after179_cat5year:
  "after179 inp cat5year =
     (if remaining0 inp > 0
      then (initSchedules inp cat5year)
             \<lparr>section179 := Some (min (remaining0 inp) (initialBasis inp cat5year)),
              basis := initialBasis inp cat5year - min (remaining0 inp) (initialBasis inp cat5year)\<rparr>
      else initSchedules inp cat5year)"
  by (simp add: after179_def applySection179_def eligible179_def step179_def Let_def remaining0_def initialBasis_def)

lemma or0_Some: "or0 (Some v) = v"
  by (simp add: or0_def)

lemma or0_None: "or0 None = 0"
  by (simp add: or0_def)

lemma step179_apply:
  "step179 c (r, cs) =
     (if r > 0
      then (r - min r (basis (cs c)),
            cs(c := (cs c)\<lparr>section179 := Some (min r (basis (cs c))),
                            basis := basis (cs c) - min r (basis (cs c))\<rparr>))
      else (r, cs))"
  by (simp add: step179_def Let_def)

lemma remainingAt_cat5year: "remainingAt inp cat5year = remaining0 inp"
  by (simp add: remainingAt_def eligible179_def)

lemma takeWhile_7: "takeWhile (\<lambda>d. d \<noteq> cat7year) eligible179 = [cat5year]"
  by (simp add: eligible179_def)

lemma takeWhile_15: "takeWhile (\<lambda>d. d \<noteq> cat15year) eligible179 = [cat5year, cat7year]"
  by (simp add: eligible179_def)

lemma remainingAt_cat7year:
  "remainingAt inp cat7year =
     remainingAt inp cat5year - taken179 (remainingAt inp cat5year) (initialBasis inp cat5year)"
  unfolding remainingAt_cat5year
  by (simp add: remainingAt_def takeWhile_7 step179_apply taken179_def initialBasis_def)

lemma remainingAt_cat15year:
  "remainingAt inp cat15year =
     remainingAt inp cat7year - taken179 (remainingAt inp cat7year) (initialBasis inp cat7year)"
  unfolding remainingAt_cat7year remainingAt_cat5year
  by (simp add: remainingAt_def takeWhile_15 step179_apply taken179_def initialBasis_def)

lemma remaining_final:
  "fst (applySection179 inp (initSchedules inp)) =
     remainingAt inp cat15year - taken179 (remainingAt inp cat15year) (initialBasis inp cat15year)"
  unfolding remainingAt_cat15year remainingAt_cat7year remainingAt_cat5year
  by (simp add: applySection179_def eligible179_def step179_apply taken179_def
      initialBasis_def remaining0_def)

lemma after179_cat7year:
  "after179 inp cat7year =
     (if remainingAt inp cat7year > 0
      then (initSchedules inp cat7year)
             \<lparr>section179 := Some (min (remainingAt inp cat7year) (initialBasis inp cat7year)),
              basis := initialBasis inp cat7year
                       - min (remainingAt inp cat7year) (initialBasis inp cat7year)\<rparr>
      else initSchedules inp cat7year)"
  unfolding remainingAt_cat7year remainingAt_cat5year
  by (simp add: after179_def applySection179_def eligible179_def step179_apply taken179_def
      initialBasis_def remaining0_def)

lemma after179_cat15year:
  "after179 inp cat15year =
     (if remainingAt inp cat15year > 0
      then (initSchedules inp cat15year)
             \<lparr>section179 := Some (min (remainingAt inp cat15year) (initialBasis inp cat15year)),
              basis := initialBasis inp cat15year
                       - min (remainingAt inp cat15year) (initialBasis inp cat15year)\<rparr>
      else initSchedules inp cat15year)"
  unfolding remainingAt_cat15year remainingAt_cat7year remainingAt_cat5year
  by (simp add: after179_def applySection179_def eligible179_def step179_apply taken179_def
      initialBasis_def remaining0_def)

lemma after179_eligible:
  "c \<in> set eligible179 \<Longrightarrow>
   after179 inp c =
     (if remainingAt inp c > 0
      then (initSchedules inp c)
             \<lparr>section179 := Some (min (remainingAt inp c) (initialBasis inp c)),
              basis := initialBasis inp c - min (remainingAt inp c) (initialBasis inp c)\<rparr>
      else initSchedules inp c)"
  using after179_cat5year [of inp] after179_cat7year [of inp] after179_cat15year [of inp]
  by (auto simp add: eligible179_def remainingAt_cat5year)

lemma recorded179_eligible:
  "c \<in> set eligible179 \<Longrightarrow> recorded179 inp c = taken179 (remainingAt inp c) (initialBasis inp c)"
  by (simp add: recorded179_after179 after179_eligible taken179_def or0_Some or0_None
      initSchedules_apply)

lemma basis_after179_eligible:
  "c \<in> set eligible179 \<Longrightarrow> basis (after179 inp c) = initialBasis inp c - recorded179 inp c"
  by (simp add: recorded179_eligible after179_eligible taken179_def initialBasis_def)

lemma recorded179_not_eligible: "c \<notin> set eligible179 \<Longrightarrow> recorded179 inp c = 0"
  by (simp add: recorded179_after179 after179_not_eligible initSchedules_apply or0_None)

lemma taken179_min: "0 \<le> r \<Longrightarrow> 0 \<le> b \<Longrightarrow> taken179 r b = min r b"
  by (simp add: taken179_def)

lemma spec179_three:
  "spec179 r [b5, b7, b15] =
     [min r b5, min (r - min r b5) b7, min (r - min r b5 - min (r - min r b5) b7) b15]"
  by (simp add: Let_def)

lemma remainingAt_cat7year_recorded:
  "remainingAt inp cat7year = remainingAt inp cat5year - recorded179 inp cat5year"
  by (simp add: remainingAt_cat7year recorded179_eligible eligible179_def)

lemma remainingAt_cat15year_recorded:
  "remainingAt inp cat15year = remainingAt inp cat7year - recorded179 inp cat7year"
  by (simp add: remainingAt_cat15year recorded179_eligible eligible179_def)

lemma remaining_final_recorded:
  "fst (applySection179 inp (initSchedules inp)) =
     remainingAt inp cat15year - recorded179 inp cat15year"
  by (simp add: remaining_final recorded179_eligible eligible179_def)

lemma recorded179_min:
  "c \<in> set eligible179 \<Longrightarrow> 0 \<le> remainingAt inp c \<Longrightarrow> 0 \<le> initialBasis inp c \<Longrightarrow>
   recorded179 inp c = min (remainingAt inp c) (initialBasis inp c)"
  by (simp add: recorded179_eligible taken179_min)

text \<open>
  Claim C1, as amended. When Section 179 is elected, the requested amount is not negative
  and the allocated bases of the eligible categories are not negative, the recorded
  Section 179 amounts of 5year, 7year, 15year, in that order, are the deductions of the
  specification: each is \<open>min(remaining, basis)\<close> with the running remaining amount
  starting at \<open>section179Amount\<close>; a category reached when nothing remains receives zero;
  each deduction is subtracted from the category's basis and from the remaining amount; no
  other category is touched; and the total deducted is at most the minimum of the
  requested amount and the sum of the eligible allocated bases.
\<close>

theorem section179_first_come_first_served:
  assumes elected: "useSection179 inp"
    and amount: "0 \<le> section179Amount inp"
    and bases: "\<forall>c\<in>set eligible179. 0 \<le> initialBasis inp c"
  shows "eligible179 = [cat5year, cat7year, cat15year]
       \<and> map (recorded179 inp) eligible179 =
           spec179 (section179Amount inp) (map (initialBasis inp) eligible179)
       \<and> (\<forall>c\<in>set eligible179.
             recorded179 inp c = min (remainingAt inp c) (initialBasis inp c)
           \<and> (remainingAt inp c = 0 \<longrightarrow> recorded179 inp c = 0)
           \<and> basis (after179 inp c) = initialBasis inp c - recorded179 inp c)
       \<and> (\<forall>c. c \<notin> set eligible179 \<longrightarrow> after179 inp c = initSchedules inp c)
       \<and> fst (applySection179 inp (initSchedules inp)) =
           section179Amount inp - sum_list (map (recorded179 inp) eligible179)
       \<and> sum_list (map (recorded179 inp) eligible179) \<le>
           min (section179Amount inp) (sum_list (map (initialBasis inp) eligible179))"
proof -
  let ?b5 = "initialBasis inp cat5year"
  let ?b7 = "initialBasis inp cat7year"
  let ?b15 = "initialBasis inp cat15year"
  let ?r5 = "remainingAt inp cat5year"
  let ?r7 = "remainingAt inp cat7year"
  let ?r15 = "remainingAt inp cat15year"
  let ?t5 = "recorded179 inp cat5year"
  let ?t7 = "recorded179 inp cat7year"
  let ?t15 = "recorded179 inp cat15year"
  have b5: "0 \<le> ?b5" and b7: "0 \<le> ?b7" and b15: "0 \<le> ?b15"
    using bases by (simp_all add: eligible179_def)
  have r5: "?r5 = section179Amount inp"
    using elected by (simp add: remainingAt_cat5year remaining0_def)
  have r7: "?r7 = ?r5 - ?t5"
    by (rule remainingAt_cat7year_recorded)
  have r15: "?r15 = ?r7 - ?t7"
    by (rule remainingAt_cat15year_recorded)
  have fin: "fst (applySection179 inp (initSchedules inp)) = ?r15 - ?t15"
    by (rule remaining_final_recorded)
  have r5_pos: "0 \<le> ?r5"
    using amount r5 by simp
  have t5: "?t5 = min ?r5 ?b5"
    using r5_pos b5 by (simp add: recorded179_min eligible179_def)
  have t5_le: "?t5 \<le> ?r5" "?t5 \<le> ?b5"
    unfolding t5 by (rule min.cobounded1, rule min.cobounded2)
  have r7_pos: "0 \<le> ?r7"
    using r7 t5_le by linarith
  have t7: "?t7 = min ?r7 ?b7"
    using r7_pos b7 by (simp add: recorded179_min eligible179_def)
  have t7_le: "?t7 \<le> ?r7" "?t7 \<le> ?b7"
    unfolding t7 by (rule min.cobounded1, rule min.cobounded2)
  have r15_pos: "0 \<le> ?r15"
    using r15 t7_le by linarith
  have t15: "?t15 = min ?r15 ?b15"
    using r15_pos b15 by (simp add: recorded179_min eligible179_def)
  have t15_le: "?t15 \<le> ?r15" "?t15 \<le> ?b15"
    unfolding t15 by (rule min.cobounded1, rule min.cobounded2)
  have s7: "section179Amount inp - min (section179Amount inp) ?b5 = ?r7"
    using r7 r5 t5 by simp
  have s15: "?r7 - min ?r7 ?b7 = ?r15"
    using r15 t7 by simp
  have first: "map (recorded179 inp) eligible179 =
           spec179 (section179Amount inp) (map (initialBasis inp) eligible179)"
    unfolding eligible179_def list.map spec179_three s7 s15
    using t5 t7 t15 r5 by simp
  have each: "\<forall>c\<in>set eligible179.
             recorded179 inp c = min (remainingAt inp c) (initialBasis inp c)
           \<and> (remainingAt inp c = 0 \<longrightarrow> recorded179 inp c = 0)
           \<and> basis (after179 inp c) = initialBasis inp c - recorded179 inp c"
  proof
    fix c assume c: "c \<in> set eligible179"
    then have pos: "0 \<le> remainingAt inp c" "0 \<le> initialBasis inp c"
      using r5_pos r7_pos r15_pos b5 b7 b15 by (auto simp add: eligible179_def)
    have m: "recorded179 inp c = min (remainingAt inp c) (initialBasis inp c)"
      using c pos by (rule recorded179_min)
    have z: "remainingAt inp c = 0 \<longrightarrow> recorded179 inp c = 0"
      using pos(2) unfolding m by (simp add: min_def)
    show "recorded179 inp c = min (remainingAt inp c) (initialBasis inp c)
           \<and> (remainingAt inp c = 0 \<longrightarrow> recorded179 inp c = 0)
           \<and> basis (after179 inp c) = initialBasis inp c - recorded179 inp c"
      using m z basis_after179_eligible [OF c, of inp] by blast
  qed
  have others: "\<forall>c. c \<notin> set eligible179 \<longrightarrow> after179 inp c = initSchedules inp c"
    by (simp add: after179_not_eligible)
  have sum: "sum_list (map (recorded179 inp) eligible179) = ?t5 + ?t7 + ?t15"
    by (simp add: eligible179_def)
  have sumb: "sum_list (map (initialBasis inp) eligible179) = ?b5 + ?b7 + ?b15"
    by (simp add: eligible179_def)
  have rest: "fst (applySection179 inp (initSchedules inp)) =
           section179Amount inp - sum_list (map (recorded179 inp) eligible179)"
    unfolding sum using fin r15 r7 r5 by linarith
  have "?t5 + ?t7 + ?t15 \<le> section179Amount inp"
    using t15_le(1) r15 r7 r5 by linarith
  moreover have "?t5 + ?t7 + ?t15 \<le> ?b5 + ?b7 + ?b15"
    using t5_le(2) t7_le(2) t15_le(2) by linarith
  ultimately have total: "sum_list (map (recorded179 inp) eligible179) \<le>
           min (section179Amount inp) (sum_list (map (initialBasis inp) eligible179))"
    unfolding sum sumb by (rule min.boundedI)
  have order: "eligible179 = [cat5year, cat7year, cat15year]"
    by (rule eligible179_def)
  from order first each others rest total show ?thesis by blast
qed

text \<open>The specification's scenario: 100000 requested against bases 80000, 50000 and
  120000.\<close>

theorem section179_first_come_first_served_witness:
  "useSection179 section179Inputs \<and> 0 \<le> section179Amount section179Inputs
   \<and> 0 \<le> initialBasis section179Inputs cat5year
   \<and> 0 \<le> initialBasis section179Inputs cat7year
   \<and> 0 \<le> initialBasis section179Inputs cat15year
   \<and> map (recorded179 section179Inputs) eligible179 = [80000, 20000, 0]
   \<and> basis (after179 section179Inputs cat5year) = 0
   \<and> basis (after179 section179Inputs cat7year) = 30000
   \<and> basis (after179 section179Inputs cat15year) = 120000
   \<and> fst (applySection179 section179Inputs (initSchedules section179Inputs)) = 0"
proof -
  have b: "initialBasis section179Inputs cat5year = 80000"
    "initialBasis section179Inputs cat7year = 50000"
    "initialBasis section179Inputs cat15year = 120000"
    by (simp_all add: section179Inputs_def defaultInputs_def initialBasis_eq)
  have a: "useSection179 section179Inputs" "section179Amount section179Inputs = 100000"
    by (simp_all add: section179Inputs_def defaultInputs_def)
  have h: "useSection179 section179Inputs" "0 \<le> section179Amount section179Inputs"
    "\<forall>c\<in>set eligible179. 0 \<le> initialBasis section179Inputs c"
    by (simp_all add: a b eligible179_def)
  have rec: "map (recorded179 section179Inputs) eligible179 = [80000, 20000, 0]"
    using section179_first_come_first_served [OF h]
    by (simp add: eligible179_def a b)
  then have t: "recorded179 section179Inputs cat5year = 80000"
    "recorded179 section179Inputs cat7year = 20000"
    "recorded179 section179Inputs cat15year = 0"
    by (simp_all add: eligible179_def)
  have "basis (after179 section179Inputs cat5year) = 0"
    "basis (after179 section179Inputs cat7year) = 30000"
    "basis (after179 section179Inputs cat15year) = 120000"
    "fst (applySection179 section179Inputs (initSchedules section179Inputs)) = 0"
    using section179_first_come_first_served [OF h]
    by (simp_all add: eligible179_def a b t)
  then show ?thesis
    using a b rec by simp
qed

text \<open>
  Claim C1 as stated fails for a negative requested amount: with Section 179 elected and
  \<open>section179Amount = -100\<close> the guard \<open>remaining179 > 0\<close> skips every category, so the
  5year deduction is 0 and not \<open>min(-100, 80000)\<close>, and the total 0 exceeds
  \<open>min(-100, 250000)\<close>.
\<close>

theorem section179_negative_amount_counterexample:
  "useSection179 negative179Inputs
   \<and> recorded179 negative179Inputs cat5year \<noteq>
       min (section179Amount negative179Inputs) (initialBasis negative179Inputs cat5year)
   \<and> \<not> (recorded179 negative179Inputs cat5year + recorded179 negative179Inputs cat7year
          + recorded179 negative179Inputs cat15year
        \<le> min (section179Amount negative179Inputs)
              (initialBasis negative179Inputs cat5year + initialBasis negative179Inputs cat7year
               + initialBasis negative179Inputs cat15year))"
proof -
  have a: "useSection179 negative179Inputs" "section179Amount negative179Inputs = -100"
    by (simp_all add: negative179Inputs_def defaultInputs_def)
  have r: "remainingAt negative179Inputs cat5year = -100"
    "remainingAt negative179Inputs cat7year = -100"
    "remainingAt negative179Inputs cat15year = -100"
    by (simp_all add: remainingAt_cat5year remainingAt_cat7year remainingAt_cat15year
        remaining0_def taken179_def a)
  have t: "recorded179 negative179Inputs cat5year = 0"
    "recorded179 negative179Inputs cat7year = 0"
    "recorded179 negative179Inputs cat15year = 0"
    by (simp_all add: recorded179_eligible eligible179_def r taken179_def)
  have b: "initialBasis negative179Inputs cat5year = 80000"
    "initialBasis negative179Inputs cat7year = 50000"
    "initialBasis negative179Inputs cat15year = 120000"
    by (simp_all add: initialBasis_eq negative179Inputs_def defaultInputs_def)
  show ?thesis by (simp add: a t b)
qed

lemma step179_skip: "r \<le> 0 \<Longrightarrow> step179 c (r, cs) = (r, cs)"
  by (simp add: step179_apply)

lemma applySection179_skip:
  "remaining0 inp \<le> 0 \<Longrightarrow> applySection179 inp cs = (remaining0 inp, cs)"
  by (simp add: applySection179_def eligible179_def remaining0_def step179_skip)

lemma recordedBonus_afterBonus: "recordedBonus inp c = or0 (bonusDepreciation (afterBonus inp c))"
  by (simp add: recordedBonus_def categorySchedules_bonusDepreciation)

lemma after179_bonusDepreciation: "bonusDepreciation (after179 inp c) = None"
proof (cases "c \<in> set eligible179")
  case True
  then show ?thesis by (simp add: after179_eligible initSchedules_apply)
next
  case False
  then show ?thesis by (simp add: after179_not_eligible initSchedules_apply)
qed

text \<open>
  Claim C9. If Section 179 is not elected, or the requested amount is zero or negative,
  the Section 179 step leaves \<open>categorySchedules\<close> as the basis allocation made it: no
  category has a Section 179 amount recorded, every recorded amount reads as zero (so
  none is negative), no basis is reduced and the running remaining amount is unchanged.
\<close>

theorem section179_not_applied:
  assumes "\<not> useSection179 inp \<or> section179Amount inp \<le> 0"
  shows "after179 inp = initSchedules inp
       \<and> fst (applySection179 inp (initSchedules inp)) = remaining0 inp
       \<and> (\<forall>c. section179 (categorySchedules inp c) = None \<and> recorded179 inp c = 0
              \<and> basis (after179 inp c) = initialBasis inp c)"
proof -
  have r: "remaining0 inp \<le> 0"
    using assms by (auto simp add: remaining0_def)
  have a: "after179 inp = initSchedules inp"
    by (simp add: after179_def applySection179_skip [OF r])
  have "section179 (categorySchedules inp c) = None" for c
    by (simp add: categorySchedules_section179 afterBonus_apply a initSchedules_apply)
  then show ?thesis
    using a by (simp add: applySection179_skip [OF r] recorded179_def or0_None initialBasis_def)
qed

theorem section179_not_applied_witness:
  "section179Amount negative179Inputs \<le> 0
   \<and> after179 negative179Inputs = initSchedules negative179Inputs
   \<and> section179 (categorySchedules negative179Inputs cat5year) = None
   \<and> recorded179 negative179Inputs cat5year = 0
   \<and> basis (after179 negative179Inputs cat5year) = 80000"
proof -
  have h: "\<not> useSection179 negative179Inputs \<or> section179Amount negative179Inputs \<le> 0"
    by (simp add: negative179Inputs_def defaultInputs_def)
  have a: "section179Amount negative179Inputs \<le> 0"
    by (simp add: negative179Inputs_def defaultInputs_def)
  have b: "basis (initSchedules negative179Inputs cat5year) = 80000"
    by (simp add: initSchedules_apply negative179Inputs_def defaultInputs_def)
  show ?thesis
    using section179_not_applied [OF h] a b by simp
qed


lemma bonusRate_defaultInputs: "bonusRate defaultInputs = 0.6"
  by (simp add: bonusRate_def defaultInputs_def BONUS_RATES_def or0_def)


text \<open>
  Claim C8. For each of 5year, 7year, 15year the recorded Section 179 amount, the recorded
  bonus amount and the basis left after both steps add up to the initially allocated
  basis, \<open>allocation / 100 * totalCost\<close>. The bases of land, residential and commercial
  are the allocated ones after the Section 179 step, after the bonus step and in the
  returned result, whatever the elections.
\<close>

theorem basis_conservation:
  "(c \<in> set eligible179 \<longrightarrow>
      recorded179 inp c + recordedBonus inp c + basis (categorySchedules inp c) =
        (allocations inp c / 100) * totalCost inp)
   \<and> (c \<in> {land, residential, commercial} \<longrightarrow>
      basis (after179 inp c) = (allocations inp c / 100) * totalCost inp
    \<and> basis (afterBonus inp c) = (allocations inp c / 100) * totalCost inp
    \<and> basis (categorySchedules inp c) = (allocations inp c / 100) * totalCost inp)"
proof -
  have "recorded179 inp c + recordedBonus inp c + basis (categorySchedules inp c) =
        (allocations inp c / 100) * totalCost inp" if c: "c \<in> set eligible179"
  proof -
    have b: "basis (after179 inp c) = initialBasis inp c - recorded179 inp c"
      using c by (rule basis_after179_eligible)
    have "recordedBonus inp c + basis (categorySchedules inp c) = basis (after179 inp c)"
      by (simp add: recordedBonus_afterBonus categorySchedules_basis afterBonus_apply
          or0_Some after179_bonusDepreciation or0_None)
    then show ?thesis
      using b by (simp add: initialBasis_eq)
  qed
  moreover have "basis (after179 inp c) = (allocations inp c / 100) * totalCost inp
    \<and> basis (afterBonus inp c) = (allocations inp c / 100) * totalCost inp
    \<and> basis (categorySchedules inp c) = (allocations inp c / 100) * totalCost inp"
    if c: "c \<in> {land, residential, commercial}"
  proof -
    have "c \<notin> set eligible179"
      using c by (auto simp add: eligible179_def)
    then have "after179 inp c = initSchedules inp c"
      by (rule after179_not_eligible)
    moreover have "c \<notin> set eligibleBonus"
      using c by (auto simp add: eligibleBonus_def)
    ultimately show ?thesis
      by (simp add: categorySchedules_basis afterBonus_apply initSchedules_apply)
  qed
  ultimately show ?thesis by blast
qed

theorem basis_conservation_witness:
  "cat7year \<in> set eligible179
   \<and> recorded179 section179Inputs cat7year + recordedBonus section179Inputs cat7year
       + basis (categorySchedules section179Inputs cat7year) = 50000
   \<and> commercial \<in> {land, residential, commercial}
   \<and> basis (after179 section179Inputs commercial) = 600000
   \<and> basis (afterBonus section179Inputs commercial) = 600000
   \<and> basis (categorySchedules section179Inputs commercial) = 600000"
  using basis_conservation [of cat7year section179Inputs]
    basis_conservation [of commercial section179Inputs]
  by (simp add: eligible179_def section179Inputs_def defaultInputs_def)

subsection \<open>Rows of the schedule\<close>

lemma categoryOf_cat_id: "cat \<in> set ASSET_CATEGORIES \<Longrightarrow> categoryOf (cat_id cat) = cat"
  by (auto simp add: ASSET_CATEGORIES_def categoryOf_def)

lemma periodic_land: "life cat = 0 \<Longrightarrow> periodic m cat catData i = 0"
  by (simp add: periodic_def MACRS_RATES_def)

lemma life_zero_land: "cat \<in> set ASSET_CATEGORIES \<Longrightarrow> life cat = 0 \<Longrightarrow> cat_id cat = land"
  by (auto simp add: ASSET_CATEGORIES_def)

lemma recordedBonus_not_eligible: "c \<notin> set eligibleBonus \<Longrightarrow> recordedBonus inp c = 0"
  by (simp add: recordedBonus_afterBonus afterBonus_apply after179_bonusDepreciation or0_None)

lemma depreciation_schedule_nth:
  "i < years \<Longrightarrow>
   depreciation (schedule inp ! i) c = Some (amountAt inp (categorySchedules inp) i c)"
  by (simp add: schedule_nth rowAt_def amountAt_final)

lemma amountAt_eq:
  assumes "cat \<in> set ASSET_CATEGORIES"
  shows "amountAt inp (categorySchedules inp) i (cat_id cat) =
     periodic (depreciationMethod inp) cat (categorySchedules inp (cat_id cat)) i
     + (if i = 0 then recorded179 inp (cat_id cat) + recordedBonus inp (cat_id cat) else 0)"
proof (cases "life cat = 0")
  case True
  then have "cat_id cat = land"
    using assms by (simp add: life_zero_land)
  then have "recorded179 inp (cat_id cat) = 0" "recordedBonus inp (cat_id cat) = 0"
    by (simp_all add: recorded179_not_eligible recordedBonus_not_eligible eligible179_def
        eligibleBonus_def)
  then show ?thesis
    using True assms by (simp add: amountAt_def categoryOf_cat_id periodic_land)
next
  case False
  then show ?thesis
    using assms
    by (simp add: amountAt_def categoryOf_cat_id yearDepreciation_def Let_def recorded179_def
        recordedBonus_def)
qed

text \<open>
  Claim C3. For every entry of \<open>ASSET_CATEGORIES\<close> and every input, the amount reported in
  the row of year index 0 is the periodic amount of index 0 plus the recorded Section 179
  amount plus the recorded bonus amount of that category, and the amount reported in the
  row of any later year index is the periodic amount alone.
\<close>

theorem first_year_additions:
  assumes "cat \<in> set ASSET_CATEGORIES" and "i < years"
  shows "depreciation (schedule inp ! i) (cat_id cat) =
     Some (periodic (depreciationMethod inp) cat (categorySchedules inp (cat_id cat)) i
           + (if i = 0 then recorded179 inp (cat_id cat) + recordedBonus inp (cat_id cat)
              else 0))"
  using assms by (simp add: depreciation_schedule_nth amountAt_eq)

lemma defaultInputs_cat5year:
  "basis (categorySchedules defaultInputs cat5year) = 32000"
  "recorded179 defaultInputs cat5year = 0"
  "recordedBonus defaultInputs cat5year = 48000"
proof -
  have a: "after179 defaultInputs = initSchedules defaultInputs"
    by (simp add: after179_def applySection179_skip remaining0_def defaultInputs_def)
  have u: "useBonus defaultInputs"
    by (simp add: defaultInputs_def)
  have b: "basis (initSchedules defaultInputs cat5year) = 80000"
    by (simp add: initSchedules_apply defaultInputs_def)
  show "basis (categorySchedules defaultInputs cat5year) = 32000"
    by (simp add: categorySchedules_basis afterBonus_apply a b u bonusRate_defaultInputs
        eligibleBonus_def)
  show "recorded179 defaultInputs cat5year = 0"
    by (simp add: recorded179_after179 a initSchedules_apply or0_None)
  show "recordedBonus defaultInputs cat5year = 48000"
    by (simp add: recordedBonus_afterBonus afterBonus_apply a b u bonusRate_defaultInputs
        eligibleBonus_def or0_Some)
qed

text \<open>The specification's scenario: the 5year category of the default inputs reports
  \<open>32000 * 0.2 + 48000\<close> in the first year and \<open>32000 * 0.32\<close> in the second.\<close>

theorem first_year_additions_witness:
  "\<lparr>cat_id = cat5year, life = 5\<rparr> \<in> set ASSET_CATEGORIES \<and> (0::nat) < years \<and> (1::nat) < years
   \<and> depreciation (schedule defaultInputs ! 0) cat5year = Some 54400
   \<and> depreciation (schedule defaultInputs ! 1) cat5year = Some 10240"
proof -
  have c: "\<lparr>cat_id = cat5year, life = 5\<rparr> \<in> set ASSET_CATEGORIES"
    by (simp add: ASSET_CATEGORIES_def)
  have y: "(0::nat) < years" "(1::nat) < years"
    by (simp_all add: years_def)
  have m: "depreciationMethod defaultInputs = ''macrs''"
    by (simp add: defaultInputs_def)
  show ?thesis
    using first_year_additions [OF c y(1), of defaultInputs]
      first_year_additions [OF c y(2), of defaultInputs] c y
    by (simp add: m periodic_def MACRS_RATES_def defaultInputs_cat5year)
qed

text \<open>
  Claim C6. The result has exactly 40 rows. The row at index \<open>i\<close> carries the year
  \<open>purchaseYear + i\<close>, an amount for each of the six category ids and for nothing else, and
  a total that is the sum of these six amounts.
\<close>

theorem schedule_shape:
  "length (schedule inp) = 40
   \<and> length (map cat_id ASSET_CATEGORIES) = 6 \<and> distinct (map cat_id ASSET_CATEGORIES)
   \<and> (i < 40 \<longrightarrow>
        year (schedule inp ! i) = map_option (\<lambda>y. y + int i) (purchaseYear inp)
      \<and> dom (depreciation (schedule inp ! i)) = set (map cat_id ASSET_CATEGORIES)
      \<and> totalDepreciation (schedule inp ! i) =
          (\<Sum>c\<leftarrow>map cat_id ASSET_CATEGORIES. the (depreciation (schedule inp ! i) c)))"
proof -
  have "dom (depreciation (rowAt inp cs i)) = set (map cat_id ASSET_CATEGORIES)" for cs
    unfolding cat_ids_exhaustive by (simp add: rowAt_def dom_def)
  moreover have "totalDepreciation (rowAt inp cs i) =
          (\<Sum>c\<leftarrow>map cat_id ASSET_CATEGORIES. the (depreciation (rowAt inp cs i) c))" for cs
    by (simp add: rowAt_def)
  moreover have "year (rowAt inp cs i) = map_option (\<lambda>y. y + int i) (purchaseYear inp)" for cs
    by (simp add: rowAt_def)
  ultimately show ?thesis
    by (simp add: length_schedule schedule_nth years_def cat_ids)
qed

theorem schedule_shape_witness:
  "(3::nat) < 40 \<and> length (schedule defaultInputs) = 40
   \<and> year (schedule defaultInputs ! 3) = Some 2027
   \<and> dom (depreciation (schedule defaultInputs ! 3)) =
       {land, cat5year, cat7year, cat15year, residential, commercial}
   \<and> totalDepreciation (schedule defaultInputs ! 3) =
       the (depreciation (schedule defaultInputs ! 3) land)
       + the (depreciation (schedule defaultInputs ! 3) cat5year)
       + the (depreciation (schedule defaultInputs ! 3) cat7year)
       + the (depreciation (schedule defaultInputs ! 3) cat15year)
       + the (depreciation (schedule defaultInputs ! 3) residential)
       + the (depreciation (schedule defaultInputs ! 3) commercial)"
proof -
  have "purchaseYear defaultInputs = Some 2024"
    by (simp add: defaultInputs_def)
  then show ?thesis
    using schedule_shape [of defaultInputs 3] by (simp add: cat_ids)
qed

subsection \<open>Straight-line method\<close>

lemma periodic_not_macrs:
  "m \<noteq> ''macrs'' \<Longrightarrow>
   periodic m cat catData i = (if real i < life cat then basis catData / life cat else 0)"
  by (simp add: periodic_def)

lemma residentialInputs_residential:
  "depreciationMethod residentialInputs = ''straight''"
  "basis (categorySchedules residentialInputs residential) = 600000"
  "recorded179 residentialInputs residential = 0"
  "recordedBonus residentialInputs residential = 0"
  by (simp_all add: categorySchedules_basis afterBonus_apply after179_not_eligible
      initSchedules_apply recorded179_not_eligible recordedBonus_not_eligible
      eligible179_def eligibleBonus_def residentialInputs_def defaultInputs_def)

text \<open>
  Claim C4, as amended. Under any method other than \<open>'macrs'\<close>, for every category with life
  \<open>L > 0\<close> and remaining basis \<open>B\<close> after the Section 179 and bonus steps, the periodic
  amount of year index \<open>i\<close> is exactly \<open>B / L\<close> when \<open>i < L\<close> and 0 when \<open>i \<ge> L\<close>, with no
  proration of a first or last year; the reported amount adds the Section 179 and bonus
  amounts in year 0 only. For the integer lives these are the years \<open>0..L-1\<close>; for the
  life 27.5 they are the 28 years \<open>0..27\<close>.
\<close>

theorem straight_line_periodic:
  assumes "depreciationMethod inp \<noteq> ''macrs''"
    and "cat \<in> set ASSET_CATEGORIES" and "0 < life cat" and "i < years"
  shows "periodic (depreciationMethod inp) cat (categorySchedules inp (cat_id cat)) i =
           (if real i < life cat then basis (categorySchedules inp (cat_id cat)) / life cat
            else 0)
       \<and> depreciation (schedule inp ! i) (cat_id cat) =
           Some ((if real i < life cat
                  then basis (categorySchedules inp (cat_id cat)) / life cat else 0)
                 + (if i = 0
                    then recorded179 inp (cat_id cat) + recordedBonus inp (cat_id cat)
                    else 0))"
  using assms
  by (simp add: depreciation_schedule_nth amountAt_eq periodic_not_macrs)

theorem straight_line_periodic_witness:
  "depreciationMethod residentialInputs \<noteq> ''macrs''
   \<and> \<lparr>cat_id = residential, life = 27.5\<rparr> \<in> set ASSET_CATEGORIES
   \<and> (0::real) < 27.5 \<and> (27::nat) < years \<and> (28::nat) < years
   \<and> depreciation (schedule residentialInputs ! 27) residential = Some (600000 / 27.5)
   \<and> depreciation (schedule residentialInputs ! 28) residential = Some 0"
proof -
  have m: "depreciationMethod residentialInputs \<noteq> ''macrs''"
    by (simp add: residentialInputs_residential)
  have c: "\<lparr>cat_id = residential, life = 27.5\<rparr> \<in> set ASSET_CATEGORIES"
    by (simp add: ASSET_CATEGORIES_def)
  have l: "0 < life \<lparr>cat_id = residential, life = 27.5\<rparr>"
    by simp
  have y: "(27::nat) < years" "(28::nat) < years"
    by (simp_all add: years_def)
  show ?thesis
    using straight_line_periodic [OF m c l y(1)] straight_line_periodic [OF m c l y(2)] m c y
    by (simp add: residentialInputs_residential)
qed

text \<open>
  Claim C4 as stated fails for the life 27.5: year index 27 is later than \<open>L - 1 = 26.5\<close>,
  so the claim gives it 0, but \<open>27 < 27.5\<close> and the code gives it \<open>B / 27.5\<close> once more
  (28 equal amounts in all).
\<close>

theorem straight_line_residential_counterexample:
  "depreciationMethod residentialInputs \<noteq> ''macrs''
   \<and> specStraightLine (basis (categorySchedules residentialInputs residential)) 27.5 27 = 0
   \<and> periodic (depreciationMethod residentialInputs) \<lparr>cat_id = residential, life = 27.5\<rparr>
        (categorySchedules residentialInputs residential) 27 = 240000 / 11
   \<and> depreciation (schedule residentialInputs ! 27) residential = Some (240000 / 11)"
proof -
  have c: "\<lparr>cat_id = residential, life = 27.5\<rparr> \<in> set ASSET_CATEGORIES"
    by (simp add: ASSET_CATEGORIES_def)
  have "amountAt residentialInputs (categorySchedules residentialInputs) 27 residential =
      240000 / 11"
    using amountAt_eq [OF c, of residentialInputs 27]
    by (simp add: residentialInputs_residential periodic_def)
  then show ?thesis
    by (simp add: residentialInputs_residential specStraightLine_def periodic_def
        depreciation_schedule_nth years_def)
qed

subsection \<open>The method value\<close>

lemma initSchedules_method:
  "initSchedules (inp\<lparr>depreciationMethod := m\<rparr>) = initSchedules inp"
  by (rule ext) (simp add: initSchedules_apply)

lemma applySection179_method:
  "applySection179 (inp\<lparr>depreciationMethod := m\<rparr>) cs = applySection179 inp cs"
  by (simp add: applySection179_def)

lemma bonusRate_method: "bonusRate (inp\<lparr>depreciationMethod := m\<rparr>) = bonusRate inp"
  by (simp add: bonusRate_def)

lemma stepBonus_method:
  "stepBonus (inp\<lparr>depreciationMethod := m\<rparr>) = stepBonus inp"
  by (intro ext) (simp add: stepBonus_def bonusRate_method)

lemma afterBonus_method: "afterBonus (inp\<lparr>depreciationMethod := m\<rparr>) = afterBonus inp"
  by (simp add: afterBonus_def applyBonus_def after179_def stepBonus_method
      applySection179_method initSchedules_method)

lemma yearDepreciation_method:
  "m1 \<noteq> ''macrs'' \<Longrightarrow> m2 \<noteq> ''macrs'' \<Longrightarrow>
   yearDepreciation (inp\<lparr>depreciationMethod := m1\<rparr>) cat catData i =
   yearDepreciation (inp\<lparr>depreciationMethod := m2\<rparr>) cat catData i"
  by (simp add: yearDepreciation_def periodic_not_macrs)

lemma categoryStep_method:
  "m1 \<noteq> ''macrs'' \<Longrightarrow> m2 \<noteq> ''macrs'' \<Longrightarrow>
   categoryStep (inp\<lparr>depreciationMethod := m1\<rparr>) i =
   categoryStep (inp\<lparr>depreciationMethod := m2\<rparr>) i"
  by (intro ext) (simp add: categoryStep_def Let_def yearDepreciation_method [of m1 m2]
      split: prod.split)

lemma yearStep_method:
  "m1 \<noteq> ''macrs'' \<Longrightarrow> m2 \<noteq> ''macrs'' \<Longrightarrow>
   yearStep (inp\<lparr>depreciationMethod := m1\<rparr>) = yearStep (inp\<lparr>depreciationMethod := m2\<rparr>)"
  by (intro ext) (simp add: yearStep_def Let_def categoryStep_method [of m1 m2]
      split: prod.split)

text \<open>
  Claim C10. The engine looks at \<open>depreciationMethod\<close> only to compare it with \<open>'macrs'\<close>.
  Any two values other than \<open>'macrs'\<close> give the same result (rows and per-category state)
  for otherwise equal inputs. Under every such value the computed schedule is the
  straight-line one: it has 40 rows, and the row of year index \<open>i\<close> reports for every
  category \<open>basis / life\<close> of its remaining basis while \<open>i\<close> is below the life and 0 after
  (0 throughout for land), plus the recorded Section 179 and bonus amounts in year 0; the
  row total is the sum of these amounts, and the remaining basis is the one the bonus step
  left, whatever the method value.
\<close>

theorem method_only_macrs_or_not:
  assumes "m1 \<noteq> ''macrs''" and "m2 \<noteq> ''macrs''"
    and "cat \<in> set ASSET_CATEGORIES" and "i < years"
  shows "scheduleData (inp\<lparr>depreciationMethod := m1\<rparr>) =
           scheduleData (inp\<lparr>depreciationMethod := m2\<rparr>)
       \<and> length (schedule (inp\<lparr>depreciationMethod := m1\<rparr>)) = 40
       \<and> depreciation (schedule (inp\<lparr>depreciationMethod := m1\<rparr>) ! i) (cat_id cat) =
           Some ((if real i < life cat
                  then basis (categorySchedules (inp\<lparr>depreciationMethod := m1\<rparr>) (cat_id cat))
                       / life cat
                  else 0)
                 + (if i = 0
                    then recorded179 (inp\<lparr>depreciationMethod := m1\<rparr>) (cat_id cat)
                         + recordedBonus (inp\<lparr>depreciationMethod := m1\<rparr>) (cat_id cat)
                    else 0))
       \<and> totalDepreciation (schedule (inp\<lparr>depreciationMethod := m1\<rparr>) ! i) =
           (\<Sum>c\<leftarrow>map cat_id ASSET_CATEGORIES.
              the (depreciation (schedule (inp\<lparr>depreciationMethod := m1\<rparr>) ! i) c))
       \<and> basis (categorySchedules (inp\<lparr>depreciationMethod := m1\<rparr>) (cat_id cat)) =
           basis (afterBonus inp (cat_id cat))
       \<and> periodic m1 cat catData i =
           (if real i < life cat then basis catData / life cat else 0)"
proof -
  let ?inp = "inp\<lparr>depreciationMethod := m1\<rparr>"
  have m: "depreciationMethod ?inp \<noteq> ''macrs''"
    using assms(1) by simp
  have same: "scheduleData ?inp = scheduleData (inp\<lparr>depreciationMethod := m2\<rparr>)"
    using assms(1,2)
    by (simp add: scheduleData_def afterBonus_method yearStep_method [of m1 m2])
  have len: "length (schedule ?inp) = 40"
    by (simp add: length_schedule years_def)
  have row: "depreciation (schedule ?inp ! i) (cat_id cat) =
           Some ((if real i < life cat
                  then basis (categorySchedules ?inp (cat_id cat)) / life cat else 0)
                 + (if i = 0
                    then recorded179 ?inp (cat_id cat) + recordedBonus ?inp (cat_id cat)
                    else 0))"
    using assms(3,4) periodic_not_macrs [OF m]
    by (simp add: depreciation_schedule_nth amountAt_eq)
  have total: "totalDepreciation (schedule ?inp ! i) =
           (\<Sum>c\<leftarrow>map cat_id ASSET_CATEGORIES. the (depreciation (schedule ?inp ! i) c))"
    using assms(4) by (simp add: schedule_nth rowAt_def)
  have left: "basis (categorySchedules ?inp (cat_id cat)) = basis (afterBonus inp (cat_id cat))"
    by (simp add: categorySchedules_basis afterBonus_method)
  have per: "periodic m1 cat catData i =
           (if real i < life cat then basis catData / life cat else 0)"
    using assms(1) by (rule periodic_not_macrs)
  from same len row total left per show ?thesis by blast
qed

text \<open>The specification's straight-line scenario, under the form's value \<open>'straight'\<close> and
  the specification's name \<open>'straight-line'\<close>: the commercial basis 600000 gives
  \<open>600000 / 39\<close> in year 38 and 0 in year 39.\<close>

theorem method_only_macrs_or_not_witness:
  "''straight'' \<noteq> ''macrs'' \<and> ''straight-line'' \<noteq> ''macrs''
   \<and> \<lparr>cat_id = commercial, life = 39\<rparr> \<in> set ASSET_CATEGORIES
   \<and> (38::nat) < years \<and> (39::nat) < years
   \<and> scheduleData (defaultInputs\<lparr>depreciationMethod := ''straight''\<rparr>) =
       scheduleData (defaultInputs\<lparr>depreciationMethod := ''straight-line''\<rparr>)
   \<and> length (schedule (defaultInputs\<lparr>depreciationMethod := ''straight''\<rparr>)) = 40
   \<and> depreciation (schedule (defaultInputs\<lparr>depreciationMethod := ''straight''\<rparr>) ! 38)
        commercial = Some (600000 / 39)
   \<and> depreciation (schedule (defaultInputs\<lparr>depreciationMethod := ''straight''\<rparr>) ! 39)
        commercial = Some 0"
proof -
  have m: "''straight'' \<noteq> ''macrs''" "''straight-line'' \<noteq> ''macrs''"
    by simp_all
  have c: "\<lparr>cat_id = commercial, life = 39\<rparr> \<in> set ASSET_CATEGORIES"
    by (simp add: ASSET_CATEGORIES_def)
  have y: "(38::nat) < years" "(39::nat) < years"
    by (simp_all add: years_def)
  have b: "basis (afterBonus defaultInputs commercial) = 600000"
    by (simp add: afterBonus_apply after179_not_eligible initSchedules_apply eligible179_def
        eligibleBonus_def defaultInputs_def)
  show ?thesis
    using method_only_macrs_or_not [OF m c y(1), of defaultInputs]
      method_only_macrs_or_not [OF m c y(2), of defaultInputs] m c y
    by (simp add: b)
qed

subsection \<open>Total cost of zero\<close>

lemma afterBonus_dynamic:
  "yearlyDepreciation (afterBonus inp c) = [] \<and> cumulative (afterBonus inp c) = 0"
proof (cases "c \<in> set eligible179")
  case True
  then show ?thesis
    by (simp add: afterBonus_apply after179_eligible initSchedules_apply)
next
  case False
  then show ?thesis
    by (simp add: afterBonus_apply after179_not_eligible initSchedules_apply)
qed

lemma categorySchedules_dynamic:
  "yearlyDepreciation (categorySchedules inp c) =
     (if c = land then [] else map (\<lambda>y. amountAt inp (afterBonus inp) y c) [0..<years])"
  "cumulative (categorySchedules inp c) =
     fold (\<lambda>y acc. acc + amountAt inp (afterBonus inp) y c)
       (if c = land then [] else [0..<years]) 0"
  using fold_yearStep_dynamic [of "afterBonus inp" "afterBonus inp" inp "[0..<years]" "[]" c]
  by (simp_all add: categorySchedules_def scheduleData_def static_eq_def afterBonus_dynamic)

lemma fold_keep: "fold (\<lambda>y acc. acc) ys a = a"
  by (induction ys) simp_all

lemma periodic_zero: "basis catData = 0 \<Longrightarrow> periodic m cat catData i = 0"
  by (simp add: periodic_def split: option.split)

lemma categoryOf_mem: "categoryOf c \<in> set ASSET_CATEGORIES"
  by (cases c) (simp_all add: ASSET_CATEGORIES_def categoryOf_def)

lemma cat_id_categoryOf: "cat_id (categoryOf c) = c"
  by (simp add: categoryOf_def)

lemma zero_cost_static:
  assumes "totalCost inp = 0"
  shows "initialBasis inp c = 0" and "recorded179 inp c = 0"
    and "basis (categorySchedules inp c) = 0" and "recordedBonus inp c = 0"
proof -
  show i: "initialBasis inp c = 0"
    using assms by (simp add: initialBasis_eq)
  show r: "recorded179 inp c = 0"
  proof (cases "c \<in> set eligible179")
    case True
    then show ?thesis by (simp add: recorded179_eligible taken179_def i)
  next
    case False
    then show ?thesis by (rule recorded179_not_eligible)
  qed
  have a: "basis (after179 inp c) = 0"
  proof (cases "c \<in> set eligible179")
    case True
    then show ?thesis by (simp add: basis_after179_eligible i r)
  next
    case False
    then show ?thesis using i by (simp add: after179_not_eligible initialBasis_def)
  qed
  show "basis (categorySchedules inp c) = 0"
    by (simp add: categorySchedules_basis afterBonus_apply a)
  show "recordedBonus inp c = 0"
    by (simp add: recordedBonus_afterBonus afterBonus_apply a or0_Some or0_None
        after179_bonusDepreciation)
qed

lemma zero_cost_amountAt:
  assumes "totalCost inp = 0"
  shows "amountAt inp (afterBonus inp) i c = 0"
  using amountAt_eq [OF categoryOf_mem, of inp i c]
  by (simp add: amountAt_final cat_id_categoryOf zero_cost_static [OF assms] periodic_zero)

text \<open>
  Claim C5, as amended. For every input with a total cost of zero, every computed amount
  is zero: each category's allocated basis, final basis, Section 179 amount, bonus amount,
  yearly amounts and cumulative figure, and in each of the 40 rows every per-category
  amount and the total. The computation has no failing branch: it is a total function of
  its inputs.
\<close>

theorem zero_cost_all_zero:
  assumes "totalCost inp = 0"
  shows "(\<forall>c. initialBasis inp c = 0 \<and> basis (categorySchedules inp c) = 0
             \<and> recorded179 inp c = 0 \<and> recordedBonus inp c = 0
             \<and> cumulative (categorySchedules inp c) = 0
             \<and> (\<forall>d\<in>set (yearlyDepreciation (categorySchedules inp c)). d = 0))
       \<and> length (schedule inp) = 40
       \<and> (\<forall>row\<in>set (schedule inp).
             totalDepreciation row = 0 \<and> (\<forall>c. depreciation row c = Some 0))"
proof -
  have z: "amountAt inp (afterBonus inp) i c = 0" for i c
    using assms by (rule zero_cost_amountAt)
  have cats: "\<forall>c. initialBasis inp c = 0 \<and> basis (categorySchedules inp c) = 0
             \<and> recorded179 inp c = 0 \<and> recordedBonus inp c = 0
             \<and> cumulative (categorySchedules inp c) = 0
             \<and> (\<forall>d\<in>set (yearlyDepreciation (categorySchedules inp c)). d = 0)"
    by (simp add: zero_cost_static [OF assms] categorySchedules_dynamic z fold_keep)
  have "rowAt inp (afterBonus inp) i =
      \<lparr>year = map_option (\<lambda>y. y + int i) (purchaseYear inp),
       depreciation = (\<lambda>c. Some 0), totalDepreciation = 0\<rparr>" for i
    by (simp add: rowAt_def z cat_ids)
  then have rows: "\<forall>row\<in>set (schedule inp).
             totalDepreciation row = 0 \<and> (\<forall>c. depreciation row c = Some 0)"
    by (auto simp add: schedule_eq)
  show ?thesis
    using cats rows by (simp add: length_schedule years_def)
qed

theorem zero_cost_all_zero_witness:
  "totalCost zeroCostInputs = 0
   \<and> initialBasis zeroCostInputs cat5year = 0
   \<and> basis (categorySchedules zeroCostInputs cat5year) = 0
   \<and> recorded179 zeroCostInputs cat5year = 0
   \<and> recordedBonus zeroCostInputs cat5year = 0
   \<and> cumulative (categorySchedules zeroCostInputs cat5year) = 0
   \<and> length (schedule zeroCostInputs) = 40
   \<and> totalDepreciation (schedule zeroCostInputs ! 0) = 0
   \<and> depreciation (schedule zeroCostInputs ! 0) cat5year = Some 0"
proof -
  have h: "totalCost zeroCostInputs = 0"
    by (simp add: zeroCostInputs_def defaultInputs_def)
  note t = zero_cost_all_zero [OF h]
  have "length (schedule zeroCostInputs) = 40"
    using t by simp
  then have "schedule zeroCostInputs ! 0 \<in> set (schedule zeroCostInputs)"
    by simp
  then have "totalDepreciation (schedule zeroCostInputs ! 0) = 0"
    "depreciation (schedule zeroCostInputs ! 0) cat5year = Some 0"
    using t by blast+
  then show ?thesis
    using t h by simp
qed

text \<open>
  Claim C5 as stated fails for a negative total cost: nothing clamps or rejects it, so
  with \<open>totalCost = -1000\<close> the 5year category is allocated \<open>-80\<close>, the commercial
  category keeps the basis \<open>-600\<close> and reports \<open>-600 * 0.02461\<close> in the first year.
\<close>

theorem negative_cost_counterexample:
  "totalCost negativeCostInputs \<le> 0
   \<and> initialBasis negativeCostInputs cat5year = -80
   \<and> basis (categorySchedules negativeCostInputs commercial) = -600
   \<and> depreciation (schedule negativeCostInputs ! 0) commercial = Some (-14.766)"
proof -
  have c: "\<lparr>cat_id = commercial, life = 39\<rparr> \<in> set ASSET_CATEGORIES"
    by (simp add: ASSET_CATEGORIES_def)
  have t: "totalCost negativeCostInputs \<le> 0"
    "depreciationMethod negativeCostInputs = ''macrs''"
    by (simp_all add: negativeCostInputs_def defaultInputs_def)
  have i: "initialBasis negativeCostInputs cat5year = -80"
    by (simp add: initialBasis_eq negativeCostInputs_def defaultInputs_def)
  have b: "basis (categorySchedules negativeCostInputs commercial) = -600"
    by (simp add: categorySchedules_basis afterBonus_apply after179_not_eligible
        initSchedules_apply eligible179_def eligibleBonus_def negativeCostInputs_def
        defaultInputs_def)
  have r: "recorded179 negativeCostInputs commercial = 0"
    "recordedBonus negativeCostInputs commercial = 0"
    by (simp_all add: recorded179_not_eligible recordedBonus_not_eligible eligible179_def
        eligibleBonus_def)
  have "amountAt negativeCostInputs (categorySchedules negativeCostInputs) 0 commercial =
      -14.766"
    using amountAt_eq [OF c, of negativeCostInputs 0]
    by (simp add: t b r periodic_def MACRS_RATES_def)
  then show ?thesis
    using t i b by (simp add: depreciation_schedule_nth years_def)
qed

end
